theory Spec2Isabelle
  imports Main
begin

section \<open>The data model of the provider configuration (package aws, config.go)\<close>

text \<open>
  Go strings are byte strings and become \<open>string\<close>; a Go \<open>[]string\<close> becomes a
  \<open>string list\<close> and a \<open>map[string]string\<close> a partial function. A Go \<open>int\<close> is only
  copied here, never computed with, so it is an \<open>int\<close>. Pointers that may be nil are
  options.

  The two tag configurations are structs of the package \<open>keyvaluetags\<close>; the code only
  copies the pointers, so their types stay abstract.
\<close>

typedecl DefaultConfig
typedecl IgnoreConfig

record Config =
  AccessKey :: string
  SecretKey :: string
  CredsFilename :: string
  Profile :: string
  Token :: string
  Region :: string
  MaxRetries :: int
  AssumeRoleARN :: string
  AssumeRoleDurationSeconds :: int
  AssumeRoleExternalID :: string
  AssumeRolePolicy :: string
  AssumeRolePolicyARNs :: "string list"
  AssumeRoleSessionName :: string
  AssumeRoleTags :: "string \<rightharpoonup> string"
  AssumeRoleTransitiveTagKeys :: "string list"
  AllowedAccountIds :: "string list"
  ForbiddenAccountIds :: "string list"
  DefaultTagsConfig :: "DefaultConfig option"
  Endpoints :: "string \<rightharpoonup> string"
  IgnoreTagsConfig :: "IgnoreConfig option"
  Insecure :: bool
  SkipCredsValidation :: bool
  SkipGetEC2Platforms :: bool
  SkipRegionValidation :: bool
  SkipRequestingAccountId :: bool
  SkipMetadataApiCheck :: bool
  S3ForcePathStyle :: bool
  terraformVersion :: string

text \<open>
  The client the provider hands to its data sources. The IAM connection is a value of
  the SDK; its type is the parameter \<open>'i\<close>.
\<close>

record 'i AWSClient =
  accountid :: string
  DefaultTagsConfig :: "DefaultConfig option"
  dnsSuffix :: string
  iamconn :: 'i
  IgnoreTagsConfig :: "IgnoreConfig option"
  partition :: string
  region :: string
  terraformVersion :: string

subsection \<open>Host names\<close>

text \<open>
  \<open>fmt.Sprintf("%s.%s", a, b)\<close> on strings is the concatenation of \<open>a\<close>, a period and
  \<open>b\<close>.
\<close>

definition PartitionHostname :: "'i AWSClient \<Rightarrow> string \<Rightarrow> string" where
  "PartitionHostname client prefix = prefix @ ''.'' @ dnsSuffix client"

definition RegionalHostname :: "'i AWSClient \<Rightarrow> string \<Rightarrow> string" where
  "RegionalHostname client prefix =
     prefix @ ''.'' @ region client @ ''.'' @ dnsSuffix client"

section \<open>The libraries the client is built with\<close>

text \<open>
  \<open>Config.Client\<close> calls the base library \<open>aws-sdk-go-base\<close> (package \<open>awsbase\<close>), the
  AWS SDK and the plugin SDK's logging helper. None of them is code of this repository,
  so each function the client calls is a field of the record \<open>sdk\<close>, and nothing is
  assumed of it. The types of the libraries' values are parameters: \<open>'e\<close> the error
  values, \<open>'s\<close> the SDK sessions and \<open>'i\<close> the IAM connections.
\<close>

record UserAgentProduct =
  Name :: string
  Version :: string
  Extra :: "string list"

text \<open>The fields of \<open>awsbase.Config\<close>, in the order of the composite literal.\<close>

record awsbase_Config =
  AccessKey :: string
  AssumeRoleARN :: string
  AssumeRoleDurationSeconds :: int
  AssumeRoleExternalID :: string
  AssumeRolePolicy :: string
  AssumeRolePolicyARNs :: "string list"
  AssumeRoleSessionName :: string
  AssumeRoleTags :: "string \<rightharpoonup> string"
  AssumeRoleTransitiveTagKeys :: "string list"
  CallerDocumentationURL :: string
  CallerName :: string
  CredsFilename :: string
  DebugLogging :: bool
  IamEndpoint :: string
  Insecure :: bool
  MaxRetries :: int
  Profile :: string
  Region :: string
  SecretKey :: string
  SkipCredsValidation :: bool
  SkipMetadataApiCheck :: bool
  SkipRequestingAccountId :: bool
  StsEndpoint :: string
  Token :: string
  UserAgentProducts :: "UserAgentProduct list"

text \<open>
  Of \<open>aws.Config\<close> the client sets the endpoint only; \<open>aws.String s\<close> is a pointer to
  \<open>s\<close>, here \<open>Some s\<close>. An \<open>endpoints.Partition\<close> is read through its methods \<open>ID\<close>
  and \<open>DNSSuffix\<close>.
\<close>

record aws_Config =
  Endpoint :: "string option"

record Partition =
  ID :: string
  DNSSuffix :: string

text \<open>
  An error function of the libraries returns nil (\<open>None\<close>) or an error.
  \<open>GetSessionWithAccountIDAndPartition\<close> returns an error, or a session with an account
  id and a partition; the client reads the three values only when the error is nil, and
  the session is then a valid pointer.
\<close>

record ('e, 's, 'i) sdk =
  ValidateRegion :: "string \<Rightarrow> 'e option"
  IsDebugOrHigher :: bool
  GetSessionWithAccountIDAndPartition :: "awsbase_Config \<Rightarrow> 'e + ('s \<times> string \<times> string)"
  ValidateAccountID :: "string \<Rightarrow> string list \<Rightarrow> string list \<Rightarrow> 'e option"
  DefaultPartitions :: "Partition list"
  PartitionForRegion :: "Partition list \<Rightarrow> string \<Rightarrow> Partition option"
  session_Copy :: "'s \<Rightarrow> aws_Config \<Rightarrow> 's"
  iam_New :: "'s \<Rightarrow> 'i"

text \<open>
  The errors this package returns: a library's error value returned as it came
  (\<open>return nil, err\<close>), \<open>fmt.Errorf\<close> with a format that wraps an error through \<open>%w\<close>,
  and \<open>fmt.Errorf\<close> with a text alone.
\<close>

datatype 'e go_error =
  LibError 'e
| Errorf_wrap string 'e
| Errorf string

text \<open>
  What the client does beyond computing its result: the calls into the base library, in
  order with their arguments, and the warning it logs.
\<close>

datatype call =
  Call_ValidateRegion string
| Call_GetSession awsbase_Config
| Log_Printf string
| Call_ValidateAccountID string "string list" "string list"

text \<open>Indexing a Go map with a key it does not hold gives the zero value.\<close>

definition map_index :: "(string \<rightharpoonup> string) \<Rightarrow> string \<Rightarrow> string" where
  "map_index m k = (case m k of None \<Rightarrow> [] | Some v \<Rightarrow> v)"

section \<open>Config.Client\<close>

text \<open>The composite literal \<open>awsbaseConfig\<close> of \<open>Config.Client\<close>.\<close>

definition awsbaseConfig :: "('e, 's, 'i) sdk \<Rightarrow> Config \<Rightarrow> awsbase_Config" where
  "awsbaseConfig lib c =
     \<lparr> awsbase_Config.AccessKey = Config.AccessKey c,
       awsbase_Config.AssumeRoleARN = Config.AssumeRoleARN c,
       awsbase_Config.AssumeRoleDurationSeconds = Config.AssumeRoleDurationSeconds c,
       awsbase_Config.AssumeRoleExternalID = Config.AssumeRoleExternalID c,
       awsbase_Config.AssumeRolePolicy = Config.AssumeRolePolicy c,
       awsbase_Config.AssumeRolePolicyARNs = Config.AssumeRolePolicyARNs c,
       awsbase_Config.AssumeRoleSessionName = Config.AssumeRoleSessionName c,
       awsbase_Config.AssumeRoleTags = Config.AssumeRoleTags c,
       awsbase_Config.AssumeRoleTransitiveTagKeys = Config.AssumeRoleTransitiveTagKeys c,
       CallerDocumentationURL = ''https://registry.terraform.io/providers/hashicorp/aws'',
       CallerName = ''Terraform AWS Provider'',
       awsbase_Config.CredsFilename = Config.CredsFilename c,
       DebugLogging = IsDebugOrHigher lib,
       IamEndpoint = map_index (Endpoints c) ''iam'',
       awsbase_Config.Insecure = Config.Insecure c,
       awsbase_Config.MaxRetries = Config.MaxRetries c,
       awsbase_Config.Profile = Config.Profile c,
       awsbase_Config.Region = Config.Region c,
       awsbase_Config.SecretKey = Config.SecretKey c,
       awsbase_Config.SkipCredsValidation = Config.SkipCredsValidation c,
       awsbase_Config.SkipMetadataApiCheck = Config.SkipMetadataApiCheck c,
       awsbase_Config.SkipRequestingAccountId = Config.SkipRequestingAccountId c,
       StsEndpoint = map_index (Endpoints c) ''sts'',
       awsbase_Config.Token = Config.Token c,
       UserAgentProducts =
         [\<lparr>Name = ''APN'', Version = ''1.0'', Extra = []\<rparr>,
          \<lparr>Name = ''HashiCorp'', Version = ''1.0'', Extra = []\<rparr>,
          \<lparr>Name = ''Terraform'', Version = Config.terraformVersion c,
            Extra = [''+https://www.terraform.io'']\<rparr>] \<rparr>"

text \<open>
  \<open>Config.Client\<close> returns Go's pair of a client and an error, each of which may be
  nil, together with the calls it made. Its steps, in the order of the source:
  region validation unless skipped; the base library's configuration and session; the
  warning on an empty account id; the account id validation; the DNS suffix; the client.

  After the client is built the source fills four more \<open>aws.Config\<close> values for global
  and S3 services and switches on the partition to set their regions. They are local
  values that no connection is made from and that are not returned, so they have no
  counterpart here.
\<close>

definition Client ::
  "('e, 's, 'i) sdk \<Rightarrow> Config \<Rightarrow> ('i AWSClient option \<times> 'e go_error option) \<times> call list"
where
  "Client lib c =
     (let (rerr, t0) =
            (if SkipRegionValidation c then (None, [])
             else (ValidateRegion lib (Config.Region c),
                   [Call_ValidateRegion (Config.Region c)]))
      in case rerr of
           Some err \<Rightarrow> ((None, Some (LibError err)), t0)
         | None \<Rightarrow>
             (let cfg = awsbaseConfig lib c;
                  t1 = t0 @ [Call_GetSession cfg]
              in case GetSessionWithAccountIDAndPartition lib cfg of
                   Inl err \<Rightarrow>
                     ((None,
                       Some (Errorf_wrap ''error configuring Terraform AWS Provider: %w'' err)),
                      t1)
                 | Inr (sess, accountID, partition') \<Rightarrow>
                     (let t2 = t1
                            @ (if accountID = []
                               then [Log_Printf ''[WARN] AWS account ID not found for provider. See https://www.terraform.io/docs/providers/aws/index.html#skip_requesting_account_id for implications.'']
                               else [])
                            @ [Call_ValidateAccountID accountID (AllowedAccountIds c)
                                 (ForbiddenAccountIds c)]
                      in case ValidateAccountID lib accountID (AllowedAccountIds c)
                                (ForbiddenAccountIds c) of
                           Some err \<Rightarrow> ((None, Some (LibError err)), t2)
                         | None \<Rightarrow>
                             (let suffix =
                                    (case PartitionForRegion lib (DefaultPartitions lib)
                                            (Config.Region c) of
                                       Some p \<Rightarrow> DNSSuffix p
                                     | None \<Rightarrow> ''amazonaws.com'')
                              in ((Some \<lparr> accountid = accountID,
                                          AWSClient.DefaultTagsConfig = Config.DefaultTagsConfig c,
                                          dnsSuffix = suffix,
                                          iamconn =
                                            iam_New lib
                                              (session_Copy lib sess
                                                 \<lparr>Endpoint = Some (map_index (Endpoints c) ''iam'')\<rparr>),
                                          AWSClient.IgnoreTagsConfig = Config.IgnoreTagsConfig c,
                                          partition = partition',
                                          region = Config.Region c,
                                          AWSClient.terraformVersion = Config.terraformVersion c \<rparr>,
                                   None),
                                  t2)))))"

section \<open>GetSupportedEC2Platforms\<close>






section \<open>A library and configurations to run the client on\<close>

text \<open>
  A small stand-in for the libraries: two regions are valid, a session needs an access
  key, an account id must not be forbidden and must be allowed when a list of allowed
  ids is given. Errors are their texts; a session is a name with an endpoint.
\<close>

definition sample_lib :: "(string, string \<times> string, string \<times> string \<times> string) sdk" where
  "sample_lib =
     \<lparr> ValidateRegion =
         (\<lambda>r. if r = ''us-east-1'' \<or> r = ''cn-north-1'' then None
              else Some (''Invalid AWS Region: '' @ r)),
       IsDebugOrHigher = False,
       GetSessionWithAccountIDAndPartition =
         (\<lambda>cfg. if awsbase_Config.AccessKey cfg = []
                then Inl ''no valid credential sources found''
                else Inr ((''session'', []), ''123456789012'', ''aws'')),
       ValidateAccountID =
         (\<lambda>a allowed forbidden.
            if List.member forbidden a then Some ''Forbidden AWS Account ID''
            else if allowed = [] then None
            else if List.member allowed a then None
            else Some ''AWS Account ID not allowed''),
       DefaultPartitions =
         [\<lparr>ID = ''aws'', DNSSuffix = ''amazonaws.com''\<rparr>,
          \<lparr>ID = ''aws-cn'', DNSSuffix = ''amazonaws.com.cn''\<rparr>],
       PartitionForRegion =
         (\<lambda>ps r. find (\<lambda>p. (ID p = ''aws'' \<and> take 3 r = ''us-'')
                           \<or> (ID p = ''aws-cn'' \<and> take 3 r = ''cn-'')) ps),
       session_Copy =
         (\<lambda>s cfg. (fst s, case Endpoint cfg of None \<Rightarrow> snd s | Some e \<Rightarrow> e)),
       iam_New = (\<lambda>s. (''iam'', s)) \<rparr>"

definition sample_config :: Config where
  "sample_config =
     \<lparr> Config.AccessKey = ''AKIAEXAMPLE'',
       Config.SecretKey = ''secret'',
       Config.CredsFilename = [],
       Config.Profile = [],
       Config.Token = [],
       Config.Region = ''us-east-1'',
       Config.MaxRetries = 25,
       Config.AssumeRoleARN = [],
       Config.AssumeRoleDurationSeconds = 0,
       Config.AssumeRoleExternalID = [],
       Config.AssumeRolePolicy = [],
       Config.AssumeRolePolicyARNs = [],
       Config.AssumeRoleSessionName = [],
       Config.AssumeRoleTags = Map.empty,
       Config.AssumeRoleTransitiveTagKeys = [],
       AllowedAccountIds = [],
       ForbiddenAccountIds = [],
       Config.DefaultTagsConfig = None,
       Endpoints = [''iam'' \<mapsto> ''https://iam.example.test''],
       Config.IgnoreTagsConfig = None,
       Config.Insecure = False,
       Config.SkipCredsValidation = False,
       SkipGetEC2Platforms = False,
       SkipRegionValidation = False,
       Config.SkipRequestingAccountId = False,
       Config.SkipMetadataApiCheck = False,
       S3ForcePathStyle = False,
       Config.terraformVersion = ''0.15.1'' \<rparr>"

definition no_key_config :: Config where
  "no_key_config = sample_config\<lparr>Config.AccessKey := []\<rparr>"

definition bad_region_config :: Config where
  "bad_region_config = sample_config\<lparr>Config.Region := ''mars-1''\<rparr>"

definition skip_region_config :: Config where
  "skip_region_config = bad_region_config\<lparr>SkipRegionValidation := True\<rparr>"

definition china_config :: Config where
  "china_config = sample_config\<lparr>Config.Region := ''cn-north-1''\<rparr>"

definition forbidden_config :: Config where
  "forbidden_config = sample_config\<lparr>ForbiddenAccountIds := [''123456789012'']\<rparr>"



section \<open>The provider and its data source\<close>

text \<open>
  The files that define the provider and its data source are not among the sources of
  package \<open>aws\<close>; only the README shows the data source \<open>awssso_role\<close> and its attribute
  \<open>arn\<close>. Both are written here from the spec.
\<close>

record provider =
  ResourcesMap :: "string list"
  DataSourcesMap :: "string list"

text \<open>
  Modelled from the spec: the provider's tables of managed resources and of data
  sources, by name, which the provider's own file would define. The spec says: "a thin
  Terraform provider exposing a single read-only data source that wraps an AWS IAM API
  lookup". A data source has a read function and no create, update or delete; a
  provider that is read-only has no managed resource.
\<close>

definition Provider :: provider where
  "Provider = \<lparr> ResourcesMap = [], DataSourcesMap = [''awssso_role''] \<rparr>"

datatype iam_call = IAM_Lookup string

text \<open>
  Modelled from the spec: the read function of the data source, which the data source's
  own file would define. The spec says that it "fetches one IAM role ARN created by
  AWS SSO" and that its logic is to "call one API, return one attribute". The IAM API
  is the function \<open>lookup\<close> from the read's argument to an error or the ARN of the role;
  the read returns the attributes it sets, or the error, and the API calls it made.
\<close>

definition dataSourceRead ::
  "(string \<Rightarrow> 'e + string) \<Rightarrow> string \<Rightarrow> ('e + (string \<times> string) list) \<times> iam_call list"
where
  "dataSourceRead lookup arg =
     (case lookup arg of
        Inl err \<Rightarrow> (Inl err, [IAM_Lookup arg])
      | Inr arn \<Rightarrow> (Inr [(''arn'', arn)], [IAM_Lookup arg]))"

section \<open>The tags schema (tags.go)\<close>

text \<open>
  The value types of the plugin SDK's \<open>schema.ValueType\<close>, and of the fields of
  \<open>schema.Schema\<close> the four that the helper sets and \<open>Required\<close>; \<open>Elem\<close> is nil or
  another schema. A field that a composite literal leaves out has Go's zero value.
\<close>

datatype ValueType =
  TypeInvalid | TypeBool | TypeInt | TypeFloat | TypeString | TypeList | TypeMap | TypeSet

datatype Schema =
  Schema (Type: ValueType) (Optional: bool) (Required: bool) (Computed: bool)
    (Elem: "Schema option")

definition tagsSchemaComputed :: Schema where
  "tagsSchemaComputed =
     Schema TypeMap True False True (Some (Schema TypeString False False False None))"

section \<open>The outcomes of Config.Client\<close>

text \<open>
  The defining equations of the sample library and configurations, for evaluation.
\<close>

lemmas samples = sample_lib_def sample_config_def no_key_config_def bad_region_config_def
  skip_region_config_def forbidden_config_def china_config_def

text \<open>
  The four ways \<open>Config.Client\<close> returns, each under the condition that selects it:
  the region is rejected, the session fails, the account id is rejected, the client is
  built.
\<close>

lemma Client_region_rejected:
  assumes "\<not> SkipRegionValidation c" and "ValidateRegion lib (Config.Region c) = Some e"
  shows "Client lib c = ((None, Some (LibError e)), [Call_ValidateRegion (Config.Region c)])"
  using assms by (simp add: Client_def)

lemma Client_session_failed:
  assumes "SkipRegionValidation c \<or> ValidateRegion lib (Config.Region c) = None"
    and "GetSessionWithAccountIDAndPartition lib (awsbaseConfig lib c) = Inl e"
  shows "fst (Client lib c) =
           (None, Some (Errorf_wrap ''error configuring Terraform AWS Provider: %w'' e))"
  using assms by (auto simp: Client_def Let_def)

lemma Client_account_rejected:
  assumes "SkipRegionValidation c \<or> ValidateRegion lib (Config.Region c) = None"
    and "GetSessionWithAccountIDAndPartition lib (awsbaseConfig lib c) = Inr (sess, a, p)"
    and "ValidateAccountID lib a (AllowedAccountIds c) (ForbiddenAccountIds c) = Some e"
  shows "fst (Client lib c) = (None, Some (LibError e))"
  using assms by (auto simp: Client_def Let_def)

lemma Client_built:
  assumes "SkipRegionValidation c \<or> ValidateRegion lib (Config.Region c) = None"
    and "GetSessionWithAccountIDAndPartition lib (awsbaseConfig lib c) = Inr (sess, a, p)"
    and "ValidateAccountID lib a (AllowedAccountIds c) (ForbiddenAccountIds c) = None"
  shows "fst (Client lib c) =
           (Some \<lparr> accountid = a,
                   AWSClient.DefaultTagsConfig = Config.DefaultTagsConfig c,
                   dnsSuffix =
                     (case PartitionForRegion lib (DefaultPartitions lib) (Config.Region c) of
                        Some q \<Rightarrow> DNSSuffix q
                      | None \<Rightarrow> ''amazonaws.com''),
                   iamconn =
                     iam_New lib
                       (session_Copy lib sess
                          \<lparr>Endpoint = Some (map_index (Endpoints c) ''iam'')\<rparr>),
                   AWSClient.IgnoreTagsConfig = Config.IgnoreTagsConfig c,
                   partition = p,
                   region = Config.Region c,
                   AWSClient.terraformVersion = Config.terraformVersion c \<rparr>,
            None)"
  using assms by (auto simp: Client_def Let_def)

lemma Client_succeeds_only_if:
  assumes "snd (fst (Client lib c)) = None"
  shows "(SkipRegionValidation c \<or> ValidateRegion lib (Config.Region c) = None)
         \<and> (\<exists>sess a p.
               GetSessionWithAccountIDAndPartition lib (awsbaseConfig lib c) = Inr (sess, a, p)
               \<and> ValidateAccountID lib a (AllowedAccountIds c) (ForbiddenAccountIds c) = None)"
  using assms
  by (auto simp: Client_def Let_def split: option.splits sum.splits prod.splits if_splits)

lemma GetSession_call_config:
  "Call_GetSession b \<in> set (snd (Client lib c)) \<Longrightarrow> b = awsbaseConfig lib c"
  by (auto simp: Client_def Let_def split: option.splits sum.splits prod.splits if_splits)

lemma GetSession_called:
  "SkipRegionValidation c \<or> ValidateRegion lib (Config.Region c) = None \<Longrightarrow>
   Call_GetSession (awsbaseConfig lib c) \<in> set (snd (Client lib c))"
  by (auto simp: Client_def Let_def split: option.splits sum.splits prod.splits)

lemma ValidateRegion_call_only_unskipped:
  "Call_ValidateRegion r \<in> set (snd (Client lib c)) \<Longrightarrow> \<not> SkipRegionValidation c"
  by (auto simp: Client_def Let_def split: option.splits sum.splits prod.splits if_splits)

lemma Client_client_only_if:
  "fst (fst (Client lib c)) = Some client \<Longrightarrow> snd (fst (Client lib c)) = None"
  by (auto simp: Client_def Let_def split: option.splits sum.splits prod.splits if_splits)

lemma Client_calls_after_session:
  assumes "SkipRegionValidation c \<or> ValidateRegion lib (Config.Region c) = None"
    and "GetSessionWithAccountIDAndPartition lib (awsbaseConfig lib c) = Inr (sess, a, p)"
  shows "snd (Client lib c) =
           (if SkipRegionValidation c then [] else [Call_ValidateRegion (Config.Region c)])
           @ [Call_GetSession (awsbaseConfig lib c)]
           @ (if a = []
              then [Log_Printf ''[WARN] AWS account ID not found for provider. See https://www.terraform.io/docs/providers/aws/index.html#skip_requesting_account_id for implications.'']
              else [])
           @ [Call_ValidateAccountID a (AllowedAccountIds c) (ForbiddenAccountIds c)]"
  using assms by (auto simp: Client_def Let_def split: option.splits)



section \<open>Properties\<close>

text \<open>
  C1. Whenever \<open>Config.Client\<close> calls \<open>GetSessionWithAccountIDAndPartition\<close>, the
  \<open>awsbase.Config\<close> it passes has the access key, secret key, token, profile,
  credentials file, region, retry limit and the eight assume-role fields of the
  \<open>Config\<close>, its IAM endpoint is \<open>Endpoints["iam"]\<close> and its STS endpoint is
  \<open>Endpoints["sts"]\<close>. The call is made for every \<open>Config\<close> whose region validation is
  skipped or passes; a rejected region returns before any configuration is built.
\<close>

theorem Client_passes_config:
  "(Call_GetSession b \<in> set (snd (Client lib c)) \<longrightarrow>
      awsbase_Config.AccessKey b = Config.AccessKey c
    \<and> awsbase_Config.SecretKey b = Config.SecretKey c
    \<and> awsbase_Config.Token b = Config.Token c
    \<and> awsbase_Config.Profile b = Config.Profile c
    \<and> awsbase_Config.CredsFilename b = Config.CredsFilename c
    \<and> awsbase_Config.Region b = Config.Region c
    \<and> awsbase_Config.MaxRetries b = Config.MaxRetries c
    \<and> awsbase_Config.AssumeRoleARN b = Config.AssumeRoleARN c
    \<and> awsbase_Config.AssumeRoleDurationSeconds b = Config.AssumeRoleDurationSeconds c
    \<and> awsbase_Config.AssumeRoleExternalID b = Config.AssumeRoleExternalID c
    \<and> awsbase_Config.AssumeRolePolicy b = Config.AssumeRolePolicy c
    \<and> awsbase_Config.AssumeRolePolicyARNs b = Config.AssumeRolePolicyARNs c
    \<and> awsbase_Config.AssumeRoleSessionName b = Config.AssumeRoleSessionName c
    \<and> awsbase_Config.AssumeRoleTags b = Config.AssumeRoleTags c
    \<and> awsbase_Config.AssumeRoleTransitiveTagKeys b = Config.AssumeRoleTransitiveTagKeys c
    \<and> IamEndpoint b = map_index (Endpoints c) ''iam''
    \<and> StsEndpoint b = map_index (Endpoints c) ''sts'')
   \<and> (SkipRegionValidation c \<or> ValidateRegion lib (Config.Region c) = None \<longrightarrow>
        Call_GetSession (awsbaseConfig lib c) \<in> set (snd (Client lib c)))"
proof -
  have "b = awsbaseConfig lib c" if "Call_GetSession b \<in> set (snd (Client lib c))"
    using that by (rule GetSession_call_config)
  moreover have "Call_GetSession (awsbaseConfig lib c) \<in> set (snd (Client lib c))"
    if "SkipRegionValidation c \<or> ValidateRegion lib (Config.Region c) = None"
    using that by (rule GetSession_called)
  ultimately show ?thesis
    by (auto simp: awsbaseConfig_def)
qed

text \<open>
  On the sample configuration the region is valid, the call is made, and the
  configuration passed holds the sample's values; \<open>Endpoints\<close> has no \<open>"sts"\<close> key, so
  the STS endpoint is the empty string.
\<close>

theorem Client_passes_config_witness:
  "Call_GetSession (awsbaseConfig sample_lib sample_config)
     \<in> set (snd (Client sample_lib sample_config))
   \<and> ValidateRegion sample_lib (Config.Region sample_config) = None
   \<and> awsbase_Config.AccessKey (awsbaseConfig sample_lib sample_config) = ''AKIAEXAMPLE''
   \<and> awsbase_Config.Region (awsbaseConfig sample_lib sample_config) = ''us-east-1''
   \<and> IamEndpoint (awsbaseConfig sample_lib sample_config) = ''https://iam.example.test''
   \<and> StsEndpoint (awsbaseConfig sample_lib sample_config) = []"
proof -
  have ok: "ValidateRegion sample_lib (Config.Region sample_config) = None"
    by (simp add: sample_lib_def sample_config_def)
  have called: "Call_GetSession (awsbaseConfig sample_lib sample_config)
                  \<in> set (snd (Client sample_lib sample_config))"
    using Client_passes_config [of "awsbaseConfig sample_lib sample_config" sample_lib
        sample_config] ok
    by blast
  show ?thesis
    using Client_passes_config [of "awsbaseConfig sample_lib sample_config" sample_lib
        sample_config] called ok
    by (simp add: sample_config_def map_index_def)
qed




text \<open>
  C3. Against the provider as the spec describes it: the provider has exactly one data
  source and no managed resource; one read makes exactly one IAM API call; and a read
  whose call succeeds sets the single attribute \<open>arn\<close> to the ARN the API returned.
\<close>

theorem provider_single_data_source:
  "length (DataSourcesMap Provider) = 1
   \<and> ResourcesMap Provider = []
   \<and> length (snd (dataSourceRead lookup arg)) = 1
   \<and> (case lookup arg of
         Inl err \<Rightarrow> True
       | Inr arn \<Rightarrow> fst (dataSourceRead lookup arg) = Inr [(''arn'', arn)])"
  by (simp add: Provider_def dataSourceRead_def split: sum.splits)

text \<open>
  C4. When \<open>Config.Client\<close> returns a nil error it returns a client whose region and
  Terraform version are the \<open>Config\<close>'s, whose account id and partition are the ones the
  base library returned, and whose DNS suffix is that of the partition that
  \<open>PartitionForRegion\<close> finds for the region among the default partitions,
  \<open>amazonaws.com\<close> when it finds none.
\<close>

theorem Client_success_fields:
  assumes "snd (fst (Client lib c)) = None"
  shows "\<exists>client sess accountID part.
           fst (fst (Client lib c)) = Some client
         \<and> GetSessionWithAccountIDAndPartition lib (awsbaseConfig lib c)
             = Inr (sess, accountID, part)
         \<and> region client = Config.Region c
         \<and> AWSClient.terraformVersion client = Config.terraformVersion c
         \<and> accountid client = accountID
         \<and> partition client = part
         \<and> dnsSuffix client =
             (case PartitionForRegion lib (DefaultPartitions lib) (Config.Region c) of
                Some p \<Rightarrow> DNSSuffix p
              | None \<Rightarrow> ''amazonaws.com'')"
proof -
  from assms obtain sess a p where
    r: "SkipRegionValidation c \<or> ValidateRegion lib (Config.Region c) = None" and
    s: "GetSessionWithAccountIDAndPartition lib (awsbaseConfig lib c) = Inr (sess, a, p)" and
    v: "ValidateAccountID lib a (AllowedAccountIds c) (ForbiddenAccountIds c) = None"
    using Client_succeeds_only_if by blast
  show ?thesis
    using Client_built [OF r s v] s by simp
qed

text \<open>
  A region of the China partition: the client's DNS suffix is that partition's.
\<close>

theorem Client_success_fields_witness:
  "snd (fst (Client sample_lib china_config)) = None
   \<and> (\<exists>client.
         fst (fst (Client sample_lib china_config)) = Some client
       \<and> region client = ''cn-north-1''
       \<and> AWSClient.terraformVersion client = ''0.15.1''
       \<and> accountid client = ''123456789012''
       \<and> partition client = ''aws''
       \<and> dnsSuffix client = ''amazonaws.com.cn'')"
proof -
  have ok: "snd (fst (Client sample_lib china_config)) = None"
    by (simp add: Client_def samples awsbaseConfig_def Let_def)
  have s: "GetSessionWithAccountIDAndPartition sample_lib
             (awsbaseConfig sample_lib china_config)
           = Inr ((''session'', []), ''123456789012'', ''aws'')"
    by (simp add: samples awsbaseConfig_def)
  have p: "PartitionForRegion sample_lib (DefaultPartitions sample_lib)
             (Config.Region china_config)
           = Some \<lparr>ID = ''aws-cn'', DNSSuffix = ''amazonaws.com.cn''\<rparr>"
    by (simp add: samples)
  have r: "Config.Region china_config = ''cn-north-1''"
    and t: "Config.terraformVersion china_config = ''0.15.1''"
    by (simp_all add: samples)
  show ?thesis
    using Client_success_fields [OF ok] ok s p r t by auto
qed

text \<open>
  C5. A client that \<open>Config.Client\<close> returns comes from one call of
  \<open>GetSessionWithAccountIDAndPartition\<close>, on the configuration built from the
  \<open>Config\<close>: the call returned a session, an account id and a partition; the client
  holds that account id and partition, the account id validated is that one, and the
  IAM connection is \<open>iam.New\<close> of a copy of that session whose endpoint is
  \<open>Endpoints["iam"]\<close>.
\<close>

theorem Client_delegates_session:
  assumes "fst (fst (Client lib c)) = Some client"
  shows "\<exists>sess accountID part.
           GetSessionWithAccountIDAndPartition lib (awsbaseConfig lib c)
             = Inr (sess, accountID, part)
         \<and> accountid client = accountID
         \<and> partition client = part
         \<and> iamconn client =
             iam_New lib
               (session_Copy lib sess \<lparr>Endpoint = Some (map_index (Endpoints c) ''iam'')\<rparr>)
         \<and> Call_ValidateAccountID accountID (AllowedAccountIds c) (ForbiddenAccountIds c)
             \<in> set (snd (Client lib c))
         \<and> filter (\<lambda>x. case x of Call_GetSession b \<Rightarrow> True | _ \<Rightarrow> False) (snd (Client lib c))
             = [Call_GetSession (awsbaseConfig lib c)]"
proof -
  from assms have "snd (fst (Client lib c)) = None"
    using Client_client_only_if by blast
  then obtain sess a p where
    r: "SkipRegionValidation c \<or> ValidateRegion lib (Config.Region c) = None" and
    s: "GetSessionWithAccountIDAndPartition lib (awsbaseConfig lib c) = Inr (sess, a, p)" and
    v: "ValidateAccountID lib a (AllowedAccountIds c) (ForbiddenAccountIds c) = None"
    using Client_succeeds_only_if by blast
  have "client = the (fst (fst (Client lib c)))"
    using assms by simp
  then show ?thesis
    using Client_built [OF r s v] Client_calls_after_session [OF r s] s
    by (simp split: if_splits)
qed

text \<open>
  On the sample configuration the IAM connection carries the configured endpoint.
\<close>

theorem Client_delegates_session_witness:
  "(\<exists>client.
      fst (fst (Client sample_lib sample_config)) = Some client
    \<and> accountid client = ''123456789012''
    \<and> partition client = ''aws''
    \<and> iamconn client = (''iam'', ''session'', ''https://iam.example.test''))
   \<and> GetSessionWithAccountIDAndPartition sample_lib (awsbaseConfig sample_lib sample_config)
       = Inr ((''session'', []), ''123456789012'', ''aws'')"
proof -
  obtain client where ok: "fst (fst (Client sample_lib sample_config)) = Some client"
    by (simp add: Client_def samples awsbaseConfig_def Let_def)
  have s: "GetSessionWithAccountIDAndPartition sample_lib
             (awsbaseConfig sample_lib sample_config)
           = Inr ((''session'', []), ''123456789012'', ''aws'')"
    by (simp add: samples awsbaseConfig_def)
  have e: "map_index (Endpoints sample_config) ''iam'' = ''https://iam.example.test''"
    by (simp add: samples map_index_def)
  have l: "iam_New sample_lib (session_Copy sample_lib (''session'', []) \<lparr>Endpoint = Some x\<rparr>)
           = (''iam'', ''session'', x)" for x
    by (simp add: samples)
  show ?thesis
    using Client_delegates_session [OF ok] ok s e l by auto
qed

text \<open>
  C6. \<open>tagsSchemaComputed\<close> has no argument, so it is one value: a schema of type
  \<open>TypeMap\<close> whose element is a schema of type \<open>TypeString\<close>, marked both optional and
  computed.
\<close>

theorem tagsSchemaComputed_shape:
  "Type tagsSchemaComputed = TypeMap
   \<and> Optional tagsSchemaComputed
   \<and> Computed tagsSchemaComputed
   \<and> (\<exists>e. Elem tagsSchemaComputed = Some e \<and> Type e = TypeString)"
  by (simp add: tagsSchemaComputed_def)

text \<open>
  C7. For every client and every prefix, the regional host name is the partition host
  name of the prefix extended by a period and the client's region.
\<close>

theorem RegionalHostname_via_PartitionHostname:
  "RegionalHostname client prefix = PartitionHostname client (prefix @ ''.'' @ region client)"
  by (simp add: RegionalHostname_def PartitionHostname_def)

text \<open>
  C8. \<open>Config.Client\<close> returns a client and a nil error, or a nil client and an error,
  and nothing else. At each of its three failure points (the region is rejected, the
  session fails, the account id is rejected) the client returned is nil.
\<close>

theorem Client_result_shape:
  "((\<exists>client. fst (Client lib c) = (Some client, None))
    \<or> (\<exists>err. fst (Client lib c) = (None, Some err)))
   \<and> (\<not> SkipRegionValidation c \<and> ValidateRegion lib (Config.Region c) = Some e
        \<longrightarrow> fst (Client lib c) = (None, Some (LibError e)))
   \<and> ((SkipRegionValidation c \<or> ValidateRegion lib (Config.Region c) = None)
        \<and> GetSessionWithAccountIDAndPartition lib (awsbaseConfig lib c) = Inl e
        \<longrightarrow> fst (Client lib c)
              = (None, Some (Errorf_wrap ''error configuring Terraform AWS Provider: %w'' e)))
   \<and> ((SkipRegionValidation c \<or> ValidateRegion lib (Config.Region c) = None)
        \<and> GetSessionWithAccountIDAndPartition lib (awsbaseConfig lib c) = Inr (sess, a, p)
        \<and> ValidateAccountID lib a (AllowedAccountIds c) (ForbiddenAccountIds c) = Some e
        \<longrightarrow> fst (Client lib c) = (None, Some (LibError e)))"
proof -
  have "(\<exists>client. fst (Client lib c) = (Some client, None))
        \<or> (\<exists>err. fst (Client lib c) = (None, Some err))"
    by (auto simp: Client_def Let_def split: option.splits sum.splits prod.splits)
  then show ?thesis
    using Client_region_rejected [of c lib e] Client_session_failed [of c lib e]
      Client_account_rejected [of c lib sess a p e]
    by auto
qed

text \<open>
  The three failure points and the success, each on a sample configuration.
\<close>

theorem Client_result_shape_witness:
  "fst (Client sample_lib bad_region_config)
     = (None, Some (LibError ''Invalid AWS Region: mars-1''))
   \<and> fst (Client sample_lib no_key_config)
     = (None, Some (Errorf_wrap ''error configuring Terraform AWS Provider: %w''
                      ''no valid credential sources found''))
   \<and> fst (Client sample_lib forbidden_config)
     = (None, Some (LibError ''Forbidden AWS Account ID''))
   \<and> (\<exists>client. fst (Client sample_lib sample_config) = (Some client, None))"
proof (intro conjI)
  show "fst (Client sample_lib bad_region_config)
          = (None, Some (LibError ''Invalid AWS Region: mars-1''))"
    by (rule Client_result_shape [of sample_lib bad_region_config, THEN conjunct2,
          THEN conjunct1, THEN mp])
      (simp add: samples)
next
  show "fst (Client sample_lib no_key_config)
          = (None, Some (Errorf_wrap ''error configuring Terraform AWS Provider: %w''
                           ''no valid credential sources found''))"
    by (rule Client_result_shape [of sample_lib no_key_config, THEN conjunct2,
          THEN conjunct2, THEN conjunct1, THEN mp])
      (simp add: samples awsbaseConfig_def)
next
  show "fst (Client sample_lib forbidden_config)
          = (None, Some (LibError ''Forbidden AWS Account ID''))"
    by (rule Client_result_shape [of sample_lib forbidden_config _ "(''session'', [])"
          "''123456789012''" "''aws''", THEN conjunct2, THEN conjunct2, THEN conjunct2, THEN mp])
      (simp add: samples awsbaseConfig_def)
next
  have "\<And>err. fst (Client sample_lib sample_config) \<noteq> (None, Some err)"
    by (simp add: Client_def samples awsbaseConfig_def Let_def)
  with Client_result_shape [of sample_lib sample_config, THEN conjunct1]
  show "\<exists>client. fst (Client sample_lib sample_config) = (Some client, None)"
    by blast
qed

text \<open>
  C9. \<open>Config.Client\<close> stops at the region check, returning the error of
  \<open>ValidateRegion\<close> unchanged after that one call, exactly when the validation is not
  skipped and \<open>ValidateRegion\<close> rejects the region. When the validation is skipped,
  \<open>ValidateRegion\<close> is not called with any argument and the session is requested.
\<close>

theorem region_validation_gate:
  "((Client lib c = ((None, Some (LibError e)), [Call_ValidateRegion (Config.Region c)]))
      = (\<not> SkipRegionValidation c \<and> ValidateRegion lib (Config.Region c) = Some e))
   \<and> (SkipRegionValidation c \<longrightarrow>
        (\<forall>r. Call_ValidateRegion r \<notin> set (snd (Client lib c)))
        \<and> Call_GetSession (awsbaseConfig lib c) \<in> set (snd (Client lib c)))"
proof (rule conjI)
  show "(Client lib c = ((None, Some (LibError e)), [Call_ValidateRegion (Config.Region c)]))
          = (\<not> SkipRegionValidation c \<and> ValidateRegion lib (Config.Region c) = Some e)"
  proof (rule iffI)
    assume stop: "Client lib c
                    = ((None, Some (LibError e)), [Call_ValidateRegion (Config.Region c)])"
    have uncalled: "Call_GetSession (awsbaseConfig lib c) \<notin> set (snd (Client lib c))"
      unfolding stop by simp
    have "\<not> (SkipRegionValidation c \<or> ValidateRegion lib (Config.Region c) = None)"
    proof
      assume "SkipRegionValidation c \<or> ValidateRegion lib (Config.Region c) = None"
      then have "Call_GetSession (awsbaseConfig lib c) \<in> set (snd (Client lib c))"
        by (rule GetSession_called)
      with uncalled show False ..
    qed
    then obtain e' where rej: "\<not> SkipRegionValidation c"
        "ValidateRegion lib (Config.Region c) = Some e'"
      by auto
    from Client_region_rejected [OF rej] have "e' = e"
      unfolding stop by simp
    with rej show "\<not> SkipRegionValidation c \<and> ValidateRegion lib (Config.Region c) = Some e"
      by simp
  next
    assume "\<not> SkipRegionValidation c \<and> ValidateRegion lib (Config.Region c) = Some e"
    then have "\<not> SkipRegionValidation c" and "ValidateRegion lib (Config.Region c) = Some e"
      by simp_all
    then show "Client lib c
                 = ((None, Some (LibError e)), [Call_ValidateRegion (Config.Region c)])"
      by (rule Client_region_rejected)
  qed
next
  show "SkipRegionValidation c \<longrightarrow>
          (\<forall>r. Call_ValidateRegion r \<notin> set (snd (Client lib c)))
          \<and> Call_GetSession (awsbaseConfig lib c) \<in> set (snd (Client lib c))"
  proof (intro impI conjI allI)
    fix r assume skip: "SkipRegionValidation c"
    show "Call_ValidateRegion r \<notin> set (snd (Client lib c))"
    proof
      assume "Call_ValidateRegion r \<in> set (snd (Client lib c))"
      then have "\<not> SkipRegionValidation c"
        by (rule ValidateRegion_call_only_unskipped)
      with skip show False by simp
    qed
  next
    assume "SkipRegionValidation c"
    then have "SkipRegionValidation c \<or> ValidateRegion lib (Config.Region c) = None" ..
    then show "Call_GetSession (awsbaseConfig lib c) \<in> set (snd (Client lib c))"
      by (rule GetSession_called)
  qed
qed

text \<open>
  The region \<open>mars-1\<close> is rejected when validated, and goes on to the session when
  the validation is skipped.
\<close>

theorem region_validation_gate_witness:
  "Client sample_lib bad_region_config
     = ((None, Some (LibError ''Invalid AWS Region: mars-1'')), [Call_ValidateRegion ''mars-1''])
   \<and> SkipRegionValidation skip_region_config
   \<and> Config.Region skip_region_config = ''mars-1''
   \<and> Call_ValidateRegion ''mars-1'' \<notin> set (snd (Client sample_lib skip_region_config))
   \<and> Call_GetSession (awsbaseConfig sample_lib skip_region_config)
       \<in> set (snd (Client sample_lib skip_region_config))"
proof -
  have rej: "\<not> SkipRegionValidation bad_region_config
             \<and> ValidateRegion sample_lib (Config.Region bad_region_config)
                 = Some ''Invalid AWS Region: mars-1''"
    by (simp add: samples)
  have reg: "Config.Region bad_region_config = ''mars-1''"
    by (simp add: samples)
  have skip: "SkipRegionValidation skip_region_config"
    and reg': "Config.Region skip_region_config = ''mars-1''"
    by (simp_all add: samples)
  from region_validation_gate [of sample_lib bad_region_config, THEN conjunct1, THEN iffD2,
      OF rej]
  have 1: "Client sample_lib bad_region_config
             = ((None, Some (LibError ''Invalid AWS Region: mars-1'')),
                [Call_ValidateRegion ''mars-1''])"
    unfolding reg .
  from region_validation_gate [of sample_lib skip_region_config, THEN conjunct2, THEN mp,
      OF skip]
  have 2: "Call_ValidateRegion ''mars-1'' \<notin> set (snd (Client sample_lib skip_region_config))"
    and 3: "Call_GetSession (awsbaseConfig sample_lib skip_region_config)
              \<in> set (snd (Client sample_lib skip_region_config))"
    by (simp_all only: simp_thms)
  from 1 skip reg' 2 3 show ?thesis
    by (intro conjI)
qed

end
